theory Spec2Isabelle
  imports Main "HOL-Library.AList"
begin

section \<open>Python values, exceptions and log records\<close>

text \<open>
  Zulip events are JSON-like dictionaries (\<^verbatim>\<open>dict[str, Any]\<close>).  A dictionary is an
  association list in insertion order; reading a key takes the first binding.  Strings are
  restricted to code points below 256; floating point values are not part of the model.
\<close>

datatype pyval =
    PNone
  | PBool bool
  | PInt int
  | PStr string
  | PList "pyval list"
  | PDict "(string \<times> pyval) list"

datatype error =
    KeyError string
  | TypeError
  | AttributeError
  | CycleError
  | ValueError string
  | DMError string
  | NoResultFound
  | MultipleResultsFound

text \<open>Sequencing of fallible steps: the first exception aborts the rest.\<close>

definition ebind :: "'e + 'a \<Rightarrow> ('a \<Rightarrow> 'e + 'b) \<Rightarrow> 'e + 'b" where
  "ebind x f = (case x of Inl e \<Rightarrow> Inl e | Inr v \<Rightarrow> f v)"

text \<open>\<^verbatim>\<open>obj[key]\<close> with a string key: only a dictionary can be subscripted that way.\<close>

fun getitem :: "pyval \<Rightarrow> string \<Rightarrow> error + pyval" where
  "getitem (PDict d) k = (case map_of d k of Some v \<Rightarrow> Inr v | None \<Rightarrow> Inl (KeyError k))"
| "getitem PNone k = Inl TypeError"
| "getitem (PBool b) k = Inl TypeError"
| "getitem (PInt i) k = Inl TypeError"
| "getitem (PStr s) k = Inl TypeError"
| "getitem (PList l) k = Inl TypeError"

text \<open>\<^verbatim>\<open>d[k] = v\<close> on the association list: an existing key keeps its place, a new key goes last.\<close>

fun dict_set :: "string \<Rightarrow> pyval \<Rightarrow> (string \<times> pyval) list \<Rightarrow> (string \<times> pyval) list" where
  "dict_set k v [] = [(k, v)]"
| "dict_set k v (p # ps) = (if fst p = k then (k, v) # ps else p # dict_set k v ps)"

fun setitem :: "pyval \<Rightarrow> string \<Rightarrow> pyval \<Rightarrow> error + pyval" where
  "setitem (PDict d) k v = Inr (PDict (dict_set k v d))"
| "setitem PNone k v = Inl TypeError"
| "setitem (PBool b) k v = Inl TypeError"
| "setitem (PInt i) k v = Inl TypeError"
| "setitem (PStr s) k v = Inl TypeError"
| "setitem (PList l) k v = Inl TypeError"

text \<open>\<^verbatim>\<open>d.update(k1=v1, k2=v2, ...)\<close>: the keyword arguments are stored in order.\<close>

fun update_kw :: "pyval \<Rightarrow> (string \<times> pyval) list \<Rightarrow> error + pyval" where
  "update_kw (PDict d) kvs = Inr (PDict (foldl (\<lambda>acc kv. dict_set (fst kv) (snd kv) acc) d kvs))"
| "update_kw PNone kvs = Inl AttributeError"
| "update_kw (PBool b) kvs = Inl AttributeError"
| "update_kw (PInt i) kvs = Inl AttributeError"
| "update_kw (PStr s) kvs = Inl AttributeError"
| "update_kw (PList l) kvs = Inl AttributeError"

text \<open>\<^verbatim>\<open>s.startswith(p)\<close>: only strings have the method.\<close>

fun startswith :: "pyval \<Rightarrow> string \<Rightarrow> error + bool" where
  "startswith (PStr s) p = Inr (take (length p) s = p)"
| "startswith PNone p = Inl AttributeError"
| "startswith (PBool b) p = Inl AttributeError"
| "startswith (PInt i) p = Inl AttributeError"
| "startswith (PList l) p = Inl AttributeError"
| "startswith (PDict d) p = Inl AttributeError"

text \<open>\<^verbatim>\<open>s[n:]\<close> for a non-negative \<open>n\<close>.\<close>

fun slice_from :: "pyval \<Rightarrow> nat \<Rightarrow> error + pyval" where
  "slice_from (PStr s) n = Inr (PStr (drop n s))"
| "slice_from (PList l) n = Inr (PList (drop n l))"
| "slice_from PNone n = Inl TypeError"
| "slice_from (PBool b) n = Inl TypeError"
| "slice_from (PInt i) n = Inl TypeError"
| "slice_from (PDict d) n = Inl TypeError"

text \<open>\<^verbatim>\<open>v == i\<close> for an integer \<open>i\<close>: Python's booleans are the integers 0 and 1.\<close>

fun eq_int :: "pyval \<Rightarrow> int \<Rightarrow> bool" where
  "eq_int (PInt j) i = (j = i)"
| "eq_int (PBool b) i = ((if b then 1 else 0) = i)"
| "eq_int PNone i = False"
| "eq_int (PStr s) i = False"
| "eq_int (PList l) i = False"
| "eq_int (PDict d) i = False"

text \<open>
  \<^verbatim>\<open>str.isspace\<close> on the code points below 256: U+0009..U+000D, U+001C..U+0020,
  U+0085 and U+00A0.
\<close>

definition isspace :: "char \<Rightarrow> bool" where
  "isspace c = (c \<in> set [CHR 0x09, CHR 0x0A, CHR 0x0B, CHR 0x0C, CHR 0x0D,
     CHR 0x1C, CHR 0x1D, CHR 0x1E, CHR 0x1F, CHR 0x20, CHR 0x85, CHR 0xA0])"

text \<open>
  \<^verbatim>\<open>s.split(maxsplit=1)\<close>: leading whitespace is skipped; the first run of
  non-whitespace is the first item; the whitespace after it is skipped and what is left,
  if anything, is the second item, kept as it is up to the end of the string.
\<close>

definition split_maxsplit1 :: "string \<Rightarrow> string list" where
  "split_maxsplit1 s =
     (let s1 = dropWhile isspace s in
      if s1 = [] then []
      else let tok = takeWhile (\<lambda>c. \<not> isspace c) s1;
               rest = dropWhile isspace (dropWhile (\<lambda>c. \<not> isspace c) s1)
           in if rest = [] then [tok] else [tok, rest])"

fun split1 :: "pyval \<Rightarrow> error + string list" where
  "split1 (PStr s) = Inr (split_maxsplit1 s)"
| "split1 PNone = Inl AttributeError"
| "split1 (PBool b) = Inl AttributeError"
| "split1 (PInt i) = Inl AttributeError"
| "split1 (PList l) = Inl AttributeError"
| "split1 (PDict d) = Inl AttributeError"

section \<open>Events, plugins and the bot\<close>

datatype EventType = ZULIP | EMPTY | OTHER

record Event =
  sender :: string
  etype :: EventType
  data :: pyval

text \<open>
  The records the \<^verbatim>\<open>logging\<close> module is handed.  \<^verbatim>\<open>logging.debug\<close> has level 10,
  \<^verbatim>\<open>logging.exception\<close> has level 40 (ERROR).
\<close>

datatype log_record =
    WaitingForEvent
  | ReceivedEvent Event
  | ReceivedCommandLine "string list"
  | PushEventToPlugin string
  | StartPlugin string
  | LoggedException error

fun level_of :: "log_record \<Rightarrow> nat" where
  "level_of (LoggedException e) = 40"
| "level_of WaitingForEvent = 10"
| "level_of (ReceivedEvent ev) = 10"
| "level_of (ReceivedCommandLine cmd) = 10"
| "level_of (PushEventToPlugin n) = 10"
| "level_of (StartPlugin n) = 10"

text \<open>
  The client class lives in \<^verbatim>\<open>tumcsbot/client.py\<close>, which is not part of the sources at
  hand; the attributes and the method the bot uses are taken as they are used:
  the bot's user id, its mention string \<^verbatim>\<open>ping\<close>, the number \<^verbatim>\<open>ping_len\<close> and the
  method \<^verbatim>\<open>is_only_pm_recipient(message)\<close>, which may raise.
\<close>

record Client =
  client_id :: int
  ping :: string
  ping_len :: nat
  is_only_pm_recipient :: "pyval \<Rightarrow> error + bool"

text \<open>
  Modelled from the spec: \<^verbatim>\<open>ping_len\<close> is the length of the mention string, so that
  \<^verbatim>\<open>content[ping_len:]\<close> strips exactly the mention prefix.
\<close>

definition wf_client :: "Client \<Rightarrow> bool" where
  "wf_client c = (ping_len c = length (ping c))"

text \<open>
  A plugin as far as the dispatcher sees it (\<^verbatim>\<open>tumcsbot/plugin.py\<close> is not at hand):
  its name, the names it depends on and its responsibility predicate.
\<close>

record Plugin =
  plugin_name :: string
  dependencies :: "string list"
  is_responsible :: "Event \<Rightarrow> bool"

record TumCSBot =
  client :: Client
  plugins :: "(string \<times> Plugin) list"
  restart :: bool
  stopped :: bool
  debug :: bool

text \<open>\<^verbatim>\<open>__init__\<close>: the logging level is WARNING (30), or DEBUG (10) in debugging mode.\<close>

definition logging_level :: "TumCSBot \<Rightarrow> nat" where
  "logging_level self = (if debug self then 10 else 30)"

text \<open>A record is written only if its level reaches the configured level.\<close>

definition emit :: "TumCSBot \<Rightarrow> log_record \<Rightarrow> log_record list" where
  "emit self r = (if logging_level self \<le> level_of r then [r] else [])"

section \<open>Event preprocessing\<close>

text \<open>
  \<^verbatim>\<open>TumCSBot.zulip_event_preprocess\<close>.  The result is the exception raised, or the log
  records written together with the event returned.  The source reads
  \<^verbatim>\<open>event["type"]\<close>, \<^verbatim>\<open>event["message"]\<close> and the fields of the message several
  times; a read that has succeeded once succeeds again with the same value, so each is
  bound once, at the place of its first evaluation.  \<^verbatim>\<open>event["message"].update(...)\<close>
  changes the message dictionary the event refers to, so the returned event carries the
  updated message under its key \<^verbatim>\<open>"message"\<close>.
\<close>

definition zulip_event_preprocess :: "TumCSBot \<Rightarrow> pyval \<Rightarrow> error + (log_record list \<times> pyval)" where
  "zulip_event_preprocess self event =
     ebind (getitem event ''type'') (\<lambda>ty.
     if ty \<noteq> PStr ''message'' then Inr ([], event) else
     ebind (getitem event ''message'') (\<lambda>message.
     ebind (getitem message ''content'') (\<lambda>content.
     ebind (startswith content (ping (client self))) (\<lambda>startswithping.
     ebind (getitem message ''sender_id'') (\<lambda>sender_id.
     if eq_int sender_id (client_id (client self)) then Inr ([], event) else
     ebind (getitem message ''type'') (\<lambda>mtype.
     if mtype \<noteq> PStr ''private'' \<and> \<not> startswithping then Inr ([], event) else
     ebind (if mtype = PStr ''private''
            then (if startswithping then Inr True
                  else ebind (is_only_pm_recipient (client self) message) (\<lambda>b. Inr (\<not> b)))
            else Inr False) (\<lambda>excluded.
     if excluded then Inr ([], event) else
     ebind (if startswithping then slice_from content (ping_len (client self)) else Inr content)
       (\<lambda>content'.
     ebind (split1 content') (\<lambda>cmd.
     ebind (update_kw message
              [(''command_name'', PStr (if length cmd > 0 then cmd ! 0 else [])),
               (''command'', PStr (if length cmd > 1 then cmd ! 1 else []))]) (\<lambda>message'.
     ebind (setitem event ''message'' message') (\<lambda>event'.
     Inr (emit self (ReceivedCommandLine cmd), event'))))))))))))"

text \<open>
  The spec's words for the two fields: the command name is the first whitespace-delimited
  token of the command line, the command is what remains after that token and the
  whitespace that ends it.
\<close>

definition first_token :: "string \<Rightarrow> string" where
  "first_token s = takeWhile (\<lambda>c. \<not> isspace c) (dropWhile isspace s)"

definition remainder :: "string \<Rightarrow> string" where
  "remainder s = dropWhile isspace (drop (length (first_token s)) (dropWhile isspace s))"

text \<open>A bot used for the concrete evaluations below: user id 7, mention string \<^verbatim>\<open>@bot\<close>.\<close>

definition bot0 :: TumCSBot where
  "bot0 = \<lparr>client = \<lparr>client_id = 7, ping = ''@bot'', ping_len = 4,
                        is_only_pm_recipient = (\<lambda>m. Inr True)\<rparr>,
           plugins = [], restart = False, stopped = False, debug = False\<rparr>"


text \<open>
  The command line of a message: its content, with the mention prefix stripped if the
  content starts with it.  An event qualifies as a command, for a sender other than the
  bot, when the message is private, does not start with the mention string and the bot is
  its only other recipient, or when it is not private and starts with the mention string.
\<close>
definition command_line :: "TumCSBot \<Rightarrow> string \<Rightarrow> string" where
  "command_line self content =
     (if take (length (ping (client self))) content = ping (client self)
      then drop (length (ping (client self))) content else content)"

definition qualifies :: "TumCSBot \<Rightarrow> pyval \<Rightarrow> pyval \<Rightarrow> string \<Rightarrow> bool" where
  "qualifies self message mtype content =
     (if mtype = PStr ''private''
      then take (length (ping (client self))) content \<noteq> ping (client self)
           \<and> is_only_pm_recipient (client self) message = Inr True
      else take (length (ping (client self))) content = ping (client self))"


section \<open>The dispatcher loop\<close>

text \<open>
  \<^verbatim>\<open>TumCSBot.run\<close>, the body of \<^verbatim>\<open>while True\<close>.  A task is the pair of the plugin
  whose \<^verbatim>\<open>handle_event\<close> was scheduled and the event it was given.  The state of the loop
  is the bot, the list \<^verbatim>\<open>tasks\<close> and the log written so far.  An iteration takes the
  event the queue delivers and a predicate telling which tasks are done by then; it goes
  on, leaves the loop at \<^verbatim>\<open>break\<close>, or ends with an exception that nothing in
  \<^verbatim>\<open>run\<close> catches.  The debug record of a received event carries the event (the source
  also prints its \<^verbatim>\<open>id\<close>, an address).
\<close>

type_synonym task = "string \<times> Event"

datatype outcome = Continue | Break | Raised error

record run_state =
  bot :: TumCSBot
  tasks :: "task list"
  log :: "log_record list"

definition run_iteration :: "(task \<Rightarrow> bool) \<Rightarrow> run_state \<Rightarrow> Event \<Rightarrow> outcome \<times> run_state" where
  "run_iteration done st event =
     (let self = bot st;
          log1 = log st @ emit self WaitingForEvent @ emit self (ReceivedEvent event);
          tasks1 = filter (\<lambda>t. \<not> done t) (tasks st)
      in
      if stopped self \<or> etype event = EMPTY then
        (Break,
         \<lparr>bot = self\<lparr>restart := (if etype event = EMPTY \<and> sender event = ''restart''
                                    then True else restart self),
                       stopped := True\<rparr>,
          tasks = tasks1, log = log1\<rparr>)
      else if etype event = ZULIP then
        (case getitem (data event) ''type'' of
           Inl e \<Rightarrow> (Raised e, \<lparr>bot = self, tasks = tasks1, log = log1\<rparr>)
         | Inr ty \<Rightarrow>
             if ty = PStr ''heartbeat'' then
               (Continue, \<lparr>bot = self, tasks = tasks1, log = log1\<rparr>)
             else
               (case zulip_event_preprocess self (data event) of
                  Inl exc \<Rightarrow>
                    (Continue, \<lparr>bot = self, tasks = tasks1,
                                log = log1 @ emit self (LoggedException exc)\<rparr>)
                | Inr (l, data') \<Rightarrow>
                    (let event' = event\<lparr>data := data'\<rparr>;
                         responsible = filter (\<lambda>p. is_responsible p event')
                                         (map snd (plugins self))
                     in (Continue,
                         \<lparr>bot = self,
                          tasks = tasks1 @ map (\<lambda>p. (plugin_name p, event')) responsible,
                          log = log1 @ l @
                                concat (map (\<lambda>p. emit self (PushEventToPlugin (plugin_name p)))
                                          responsible)\<rparr>))))
      else (Continue, \<lparr>bot = self, tasks = tasks1, log = log1\<rparr>))"

text \<open>
  The loop over the events the queue delivers, each with the tasks done by then.  When the
  list is used up the loop waits for the next event, which is the outcome \<open>Continue\<close>.
\<close>

fun run_loop :: "run_state \<Rightarrow> ((task \<Rightarrow> bool) \<times> Event) list \<Rightarrow> outcome \<times> run_state" where
  "run_loop st [] = (Continue, st)"
| "run_loop st (de # q) =
     (case run_iteration (fst de) st (snd de) of
        (Continue, st') \<Rightarrow> run_loop st' q
      | (Break, st') \<Rightarrow> (Break, st')
      | (Raised e, st') \<Rightarrow> (Raised e, st'))"

text \<open>A task whose event is a keep-alive event.\<close>

definition heartbeat_task :: "task \<Rightarrow> bool" where
  "heartbeat_task t = (getitem (data (snd t)) ''type'' = Inr (PStr ''heartbeat''))"

text \<open>
  A well-formed event carries the \<^verbatim>\<open>type\<close> field and, when that is
  \<^verbatim>\<open>"message"\<close>, a message dictionary with a string \<^verbatim>\<open>content\<close>, a
  \<^verbatim>\<open>sender_id\<close> and a \<^verbatim>\<open>type\<close>; for a private message the fields
  \<^verbatim>\<open>is_only_pm_recipient\<close> reads are there too, so that it returns.
\<close>

definition returns :: "error + 'a \<Rightarrow> bool" where
  "returns r = (case r of Inl e \<Rightarrow> False | Inr v \<Rightarrow> True)"

definition is_str :: "pyval option \<Rightarrow> bool" where
  "is_str v = (case v of Some (PStr s) \<Rightarrow> True | _ \<Rightarrow> False)"

definition wf_message :: "TumCSBot \<Rightarrow> (string \<times> pyval) list \<Rightarrow> bool" where
  "wf_message self m =
     (is_str (map_of m ''content'') \<and> map_of m ''sender_id'' \<noteq> None \<and>
      map_of m ''type'' \<noteq> None \<and>
      (map_of m ''type'' = Some (PStr ''private'') \<longrightarrow>
         returns (is_only_pm_recipient (client self) (PDict m))))"

definition wf_event :: "TumCSBot \<Rightarrow> pyval \<Rightarrow> bool" where
  "wf_event self ev =
     (case getitem ev ''type'' of
        Inl e \<Rightarrow> False
      | Inr ty \<Rightarrow>
          if ty = PStr ''message''
          then (case getitem ev ''message'' of Inr (PDict m) \<Rightarrow> wf_message self m | _ \<Rightarrow> False)
          else True)"

text \<open>The same bot in debugging mode.\<close>

definition bot_debug :: TumCSBot where
  "bot_debug = bot0\<lparr>debug := True\<rparr>"

text \<open>Concrete states and events for the evaluations below.\<close>

definition plugin_echo :: Plugin where
  "plugin_echo = \<lparr>plugin_name = ''echo'', dependencies = [], is_responsible = (\<lambda>e. True)\<rparr>"

definition st0 :: run_state where
  "st0 = \<lparr>bot = bot0\<lparr>plugins := [(''echo'', plugin_echo)]\<rparr>, tasks = [], log = []\<rparr>"

definition none_done :: "task \<Rightarrow> bool" where
  "none_done t = False"

definition heartbeat_event :: Event where
  "heartbeat_event = \<lparr>sender = ''_root'', etype = ZULIP, data = PDict [(''type'', PStr ''heartbeat'')]\<rparr>"

definition typeless_event :: Event where
  "typeless_event = \<lparr>sender = ''_root'', etype = ZULIP, data = PDict []\<rparr>"

definition contentless_event :: Event where
  "contentless_event = \<lparr>sender = ''_root'', etype = ZULIP,
     data = PDict [(''type'', PStr ''message''), (''message'', PDict [])]\<rparr>"

definition mention_data :: pyval where
  "mention_data = PDict [(''type'', PStr ''message''),
     (''message'', PDict [(''content'', PStr ''@bot create foo''),
                          (''sender_id'', PInt 3), (''type'', PStr ''stream'')])]"

section \<open>Plugin startup\<close>

text \<open>
  \<^verbatim>\<open>graphlib.TopologicalSorter\<close> of the Python library, as \<^verbatim>\<open>startPlugins\<close> uses it.
  \<^verbatim>\<open>_node2info\<close> maps a node to its number of unprocessed predecessors and the list of
  its successors, in insertion order (\<open>-1\<close> marks a node handed out, \<open>-2\<close> a node done).
\<close>

type_synonym node2info = "(string \<times> int \<times> string list) list"

fun get_nodeinfo :: "node2info \<Rightarrow> string \<Rightarrow> node2info" where
  "get_nodeinfo info node = (if map_of info node = None then info @ [(node, 0, [])] else info)"

fun upd_info :: "string \<Rightarrow> (int \<times> string list \<Rightarrow> int \<times> string list) \<Rightarrow> node2info \<Rightarrow> node2info" where
  "upd_info node f [] = []"
| "upd_info node f (x # xs) = (if fst x = node then (node, f (snd x)) # xs else x # upd_info node f xs)"

text \<open>\<^verbatim>\<open>add(node, *predecessors)\<close>.\<close>

definition add :: "node2info \<Rightarrow> string \<Rightarrow> string list \<Rightarrow> node2info" where
  "add info node predecessors =
     foldl (\<lambda>i pred. upd_info pred (\<lambda>(n, succs). (n, succs @ [node])) (get_nodeinfo i pred))
       (upd_info node (\<lambda>(n, succs). (n + int (length predecessors), succs))
          (get_nodeinfo info node))
       predecessors"

text \<open>\<^verbatim>\<open>TopologicalSorter(graph)\<close>: every item of the graph is added in turn.\<close>

definition TopologicalSorter :: "(string \<times> string list) list \<Rightarrow> node2info" where
  "TopologicalSorter graph = foldl (\<lambda>i item. add i (fst item) (snd item)) [] graph"

text \<open>\<^verbatim>\<open>done(*nodes)\<close>: the successors of each node lose a predecessor and become ready at zero.\<close>

definition done_successors :: "node2info \<times> string list \<Rightarrow> string list \<Rightarrow> node2info \<times> string list" where
  "done_successors st succs =
     foldl (\<lambda>(i, ready) s.
              (let i' = upd_info s (\<lambda>(n, ss). (n - 1, ss)) i
               in (i', if map_of i' s = None then ready
                       else if fst (the (map_of i' s)) = 0 then ready @ [s] else ready)))
       st succs"

definition done_nodes :: "node2info \<Rightarrow> string list \<Rightarrow> node2info \<times> string list" where
  "done_nodes info nodes =
     foldl (\<lambda>(i, ready) node.
              done_successors (upd_info node (\<lambda>(n, ss). (-2, ss)) i, ready)
                (case map_of i node of None \<Rightarrow> [] | Some (n, ss) \<Rightarrow> ss))
       (info, []) nodes"

text \<open>
  The loop of \<^verbatim>\<open>static_order\<close>: \<^verbatim>\<open>get_ready\<close> hands out the ready nodes and marks
  them, they are yielded, \<^verbatim>\<open>done\<close> makes new nodes ready; the loop ends when no node is
  ready.  Every round hands out at least one node not handed out before, so the number of
  nodes bounds the number of rounds.
\<close>

fun rounds :: "nat \<Rightarrow> node2info \<Rightarrow> string list \<Rightarrow> string list" where
  "rounds 0 info ready = []"
| "rounds (Suc k) info ready =
     (if ready = [] then []
      else (let info1 = foldl (\<lambda>i node. upd_info node (\<lambda>(n, ss). (-1, ss)) i) info ready;
                (info2, ready2) = done_nodes info1 ready
            in ready @ rounds k info2 ready2))"

text \<open>
  \<^verbatim>\<open>static_order\<close> first calls \<^verbatim>\<open>prepare\<close>, which collects the nodes without
  predecessors and raises \<^verbatim>\<open>CycleError\<close> if the graph has a cycle, before any node is
  yielded.  The library finds the cycle by depth-first search; here a graph has a cycle
  when the rounds leave a node that is never handed out.
\<close>

definition static_order :: "(string \<times> string list) list \<Rightarrow> error + string list" where
  "static_order graph =
     (let info = TopologicalSorter graph;
          ready = map fst (filter (\<lambda>x. fst (snd x) = 0) info);
          order = rounds (length info) info ready
      in if length order \<noteq> length info then Inl CycleError else Inr order)"

text \<open>
  \<^verbatim>\<open>TumCSBot.startPlugins\<close>.  The two dictionary comprehensions keep, for a name that
  occurs twice, the place of the first occurrence and the value of the last.  The set of
  the dependencies is iterated in the order of the list, without repetitions.  The result
  is the log, the plugin classes instantiated so far, in order, and the bot or the
  exception raised.
\<close>

definition plugin_class_dict :: "Plugin list \<Rightarrow> (string \<times> Plugin) list" where
  "plugin_class_dict plugin_classes =
     foldl (\<lambda>d c. AList.update (plugin_name c) c d) [] plugin_classes"

definition plugin_graph :: "Plugin list \<Rightarrow> (string \<times> string list) list" where
  "plugin_graph plugin_classes =
     foldl (\<lambda>d c. AList.update (plugin_name c) (remdups (dependencies c)) d) [] plugin_classes"

fun start_in_order :: "TumCSBot \<Rightarrow> (string \<times> Plugin) list \<Rightarrow> string list \<Rightarrow>
    log_record list \<times> Plugin list \<Rightarrow> log_record list \<times> Plugin list \<times> (error + TumCSBot)" where
  "start_in_order self class_dict [] (lg, started) = (lg, started, Inr self)"
| "start_in_order self class_dict (name # names) (lg, started) =
     (let lg' = lg @ emit self (StartPlugin name) in
      case map_of class_dict name of
        None \<Rightarrow> (lg', started, Inl (KeyError name))
      | Some plugin_class \<Rightarrow>
          if map_of (plugins self) name \<noteq> None
          then (lg', started @ [plugin_class],
                Inl (ValueError (''plugin '' @ plugin_name plugin_class @ '' appears twice'')))
          else start_in_order (self\<lparr>plugins := plugins self @ [(name, plugin_class)]\<rparr>)
                 class_dict names (lg', started @ [plugin_class]))"

definition startPlugins :: "TumCSBot \<Rightarrow> Plugin list \<Rightarrow>
    log_record list \<times> Plugin list \<times> (error + TumCSBot)" where
  "startPlugins self plugin_classes =
     (case static_order (plugin_graph plugin_classes) of
        Inl e \<Rightarrow> ([], [], Inl e)
      | Inr order \<Rightarrow> start_in_order self (plugin_class_dict plugin_classes) order ([], []))"

text \<open>Plugin classes for the evaluations below.\<close>

definition plugin_a :: Plugin where
  "plugin_a = \<lparr>plugin_name = ''a'', dependencies = [], is_responsible = (\<lambda>e. True)\<rparr>"

definition plugin_a' :: Plugin where
  "plugin_a' = \<lparr>plugin_name = ''a'', dependencies = [''b''], is_responsible = (\<lambda>e. False)\<rparr>"

definition plugin_b :: Plugin where
  "plugin_b = \<lparr>plugin_name = ''b'', dependencies = [], is_responsible = (\<lambda>e. True)\<rparr>"

definition plugin_b' :: Plugin where
  "plugin_b' = \<lparr>plugin_name = ''b'', dependencies = [''c''], is_responsible = (\<lambda>e. True)\<rparr>"

definition plugin_c :: Plugin where
  "plugin_c = \<lparr>plugin_name = ''c'', dependencies = [''a''], is_responsible = (\<lambda>e. True)\<rparr>"

section \<open>Properties of event preprocessing\<close>

lemma drop_takeWhile_len: "drop (length (takeWhile P xs)) xs = dropWhile P xs"
  by (induction xs) simp_all

lemma remainder_eq:
  "remainder s = dropWhile isspace (dropWhile (\<lambda>c. \<not> isspace c) (dropWhile isspace s))"
  unfolding remainder_def first_token_def by (simp only: drop_takeWhile_len)

lemma split_cases:
  "split_maxsplit1 s =
     (if dropWhile isspace s = [] then []
      else if remainder s = [] then [first_token s] else [first_token s, remainder s])"
  unfolding split_maxsplit1_def Let_def remainder_eq first_token_def by (rule refl)

lemma first_token_Nil: "dropWhile isspace s = [] \<Longrightarrow> first_token s = []"
  unfolding first_token_def by (simp only: takeWhile.simps)

lemma remainder_Nil: "dropWhile isspace s = [] \<Longrightarrow> remainder s = []"
  unfolding remainder_eq by (simp only: dropWhile.simps)

lemma split_command_name:
  "(if length (split_maxsplit1 s) > 0 then split_maxsplit1 s ! 0 else []) = first_token s"
proof (cases "dropWhile isspace s = []")
  case True
  then have "split_maxsplit1 s = []" by (simp only: split_cases simp_thms if_True)
  then show ?thesis using first_token_Nil [OF True] by simp
next
  case False
  then have "split_maxsplit1 s = [first_token s] \<or> split_maxsplit1 s = [first_token s, remainder s]"
    by (simp only: split_cases simp_thms if_False split: if_split)
  then show ?thesis by auto
qed

lemma split_command:
  "(if length (split_maxsplit1 s) > 1 then split_maxsplit1 s ! 1 else []) = remainder s"
proof (cases "dropWhile isspace s = []")
  case True
  then have "split_maxsplit1 s = []" by (simp only: split_cases simp_thms if_True)
  then show ?thesis using remainder_Nil [OF True] by simp
next
  case False
  show ?thesis
  proof (cases "remainder s = []")
    case True
    with False have "split_maxsplit1 s = [first_token s]" by (simp only: split_cases simp_thms if_False if_True)
    then show ?thesis using True by simp
  next
    case r: False
    with False have "split_maxsplit1 s = [first_token s, remainder s]"
      by (simp only: split_cases simp_thms if_False)
    then show ?thesis by simp
  qed
qed

lemma split_nth0: "split_maxsplit1 s \<noteq> [] \<Longrightarrow> split_maxsplit1 s ! 0 = first_token s"
  using split_command_name [of s] by (simp split: if_splits)

lemma split_Nil: "split_maxsplit1 s = [] \<Longrightarrow> first_token s = []"
  using split_command_name [of s] by (simp split: if_splits)

lemma first_token_create_foo: "first_token ''create foo'' = ''create''"
  by code_simp

lemma first_token_sp_create_foo: "first_token '' create foo'' = ''create''"
  by code_simp

lemma remainder_sp_create_foo: "remainder '' create foo'' = ''foo''"
  by code_simp

lemma remainder_create_foo: "remainder ''create foo'' = ''foo''"
  by code_simp

text \<open>
  C1.  A message event whose message is not private, whose sender is not the bot and whose
  content starts with the bot's mention string comes back with the message augmented by
  \<^verbatim>\<open>command_name\<close>, the first whitespace-delimited token of the content after the
  mention prefix, and \<^verbatim>\<open>command\<close>, the remainder after that token.  The client's
  \<^verbatim>\<open>ping_len\<close> is the length of its mention string.
\<close>

theorem preprocess_mention_command:
  assumes "wf_client (client self)"
    and "map_of d ''type'' = Some (PStr ''message'')"
    and "map_of d ''message'' = Some (PDict m)"
    and "map_of m ''content'' = Some (PStr content)"
    and "map_of m ''sender_id'' = Some sid"
    and "\<not> eq_int sid (client_id (client self))"
    and "map_of m ''type'' = Some mtype"
    and "mtype \<noteq> PStr ''private''"
    and "take (length (ping (client self))) content = ping (client self)"
  shows "zulip_event_preprocess self (PDict d) =
     Inr (emit self (ReceivedCommandLine (split_maxsplit1 (drop (length (ping (client self))) content))),
          PDict (dict_set ''message''
            (PDict (dict_set ''command'' (PStr (remainder (drop (length (ping (client self))) content)))
                   (dict_set ''command_name'' (PStr (first_token (drop (length (ping (client self))) content))) m)))
            d))"
  using assms
  by (simp add: zulip_event_preprocess_def ebind_def wf_client_def split_nth0 split_Nil split_command
      del: One_nat_def)

theorem preprocess_mention_command_witness:
  "zulip_event_preprocess bot0
     (PDict [(''type'', PStr ''message''),
             (''message'', PDict [(''content'', PStr ''@bot create foo''),
                                  (''sender_id'', PInt 3), (''type'', PStr ''stream'')])]) =
   Inr ([], PDict [(''type'', PStr ''message''),
             (''message'', PDict [(''content'', PStr ''@bot create foo''),
                                  (''sender_id'', PInt 3), (''type'', PStr ''stream''),
                                  (''command_name'', PStr ''create''),
                                  (''command'', PStr ''foo'')])])"
  using preprocess_mention_command [of bot0 "[(''type'', PStr ''message''),
             (''message'', PDict [(''content'', PStr ''@bot create foo''),
                                  (''sender_id'', PInt 3), (''type'', PStr ''stream'')])]"
           "[(''content'', PStr ''@bot create foo''),
                                  (''sender_id'', PInt 3), (''type'', PStr ''stream'')]"
           "''@bot create foo''" "PInt 3" "PStr ''stream''"]
  by (simp add: bot0_def wf_client_def emit_def logging_level_def first_token_sp_create_foo
      remainder_sp_create_foo)

text \<open>
  C2.  A private message event whose sender is not the bot, for which the bot is the only
  other recipient and whose content does not start with the mention string comes back with
  \<^verbatim>\<open>command_name\<close> the first whitespace-delimited token of the whole content and
  \<^verbatim>\<open>command\<close> the remainder; no prefix is stripped.
\<close>

theorem preprocess_private_command:
  assumes "map_of d ''type'' = Some (PStr ''message'')"
    and "map_of d ''message'' = Some (PDict m)"
    and "map_of m ''content'' = Some (PStr content)"
    and "map_of m ''sender_id'' = Some sid"
    and "\<not> eq_int sid (client_id (client self))"
    and "map_of m ''type'' = Some (PStr ''private'')"
    and "is_only_pm_recipient (client self) (PDict m) = Inr True"
    and "take (length (ping (client self))) content \<noteq> ping (client self)"
  shows "zulip_event_preprocess self (PDict d) =
     Inr (emit self (ReceivedCommandLine (split_maxsplit1 content)),
          PDict (dict_set ''message''
            (PDict (dict_set ''command'' (PStr (remainder content))
                   (dict_set ''command_name'' (PStr (first_token content)) m)))
            d))"
  using assms
  by (simp add: zulip_event_preprocess_def ebind_def split_nth0 split_Nil split_command
      del: One_nat_def)

theorem preprocess_private_command_witness:
  "zulip_event_preprocess bot0
     (PDict [(''type'', PStr ''message''),
             (''message'', PDict [(''content'', PStr ''create foo''),
                                  (''sender_id'', PInt 3), (''type'', PStr ''private'')])]) =
   Inr ([], PDict [(''type'', PStr ''message''),
             (''message'', PDict [(''content'', PStr ''create foo''),
                                  (''sender_id'', PInt 3), (''type'', PStr ''private''),
                                  (''command_name'', PStr ''create''),
                                  (''command'', PStr ''foo'')])])"
  using preprocess_private_command [of "[(''type'', PStr ''message''),
             (''message'', PDict [(''content'', PStr ''create foo''),
                                  (''sender_id'', PInt 3), (''type'', PStr ''private'')])]"
           "[(''content'', PStr ''create foo''),
                                  (''sender_id'', PInt 3), (''type'', PStr ''private'')]"
           "''create foo''" "PInt 3" bot0]
  by (simp add: bot0_def emit_def logging_level_def first_token_create_foo remainder_create_foo)

text \<open>
  C3.  A well-formed message event whose sender id equals the bot's own id comes back as it
  is, with no log record and no command field; and whenever preprocessing returns an event
  unmodified, preprocessing the returned event gives the same event again.
\<close>

theorem preprocess_own_message:
  assumes "map_of d ''type'' = Some (PStr ''message'')"
    and "map_of d ''message'' = Some (PDict m)"
    and "map_of m ''content'' = Some (PStr content)"
    and "map_of m ''sender_id'' = Some sid"
    and "eq_int sid (client_id (client self))"
  shows "zulip_event_preprocess self (PDict d) = Inr ([], PDict d) \<and>
         (\<forall>ev l ev'. zulip_event_preprocess self ev = Inr (l, ev') \<and> ev' = ev
             \<longrightarrow> zulip_event_preprocess self ev' = Inr (l, ev))"
  using assms
  by (simp add: zulip_event_preprocess_def ebind_def)

theorem preprocess_own_message_witness:
  "zulip_event_preprocess bot0
     (PDict [(''type'', PStr ''message''),
             (''message'', PDict [(''content'', PStr ''@bot create foo''),
                                  (''sender_id'', PInt 7), (''type'', PStr ''stream'')])]) =
   Inr ([], PDict [(''type'', PStr ''message''),
             (''message'', PDict [(''content'', PStr ''@bot create foo''),
                                  (''sender_id'', PInt 7), (''type'', PStr ''stream'')])])"
  using preprocess_own_message [of "[(''type'', PStr ''message''),
             (''message'', PDict [(''content'', PStr ''@bot create foo''),
                                  (''sender_id'', PInt 7), (''type'', PStr ''stream'')])]"
           "[(''content'', PStr ''@bot create foo''),
                                  (''sender_id'', PInt 7), (''type'', PStr ''stream'')]"
           "''@bot create foo''" "PInt 7" bot0, THEN conjunct1]
  by (simp add: bot0_def)

text \<open>
  C4.  A private message event not sent by the bot is returned unchanged, with no command
  field, if its content starts with the mention string or if
  \<^verbatim>\<open>is_only_pm_recipient\<close> answers False for it (which it does when there is a recipient
  besides the bot and the sender).
\<close>

theorem preprocess_private_excluded:
  assumes "map_of d ''type'' = Some (PStr ''message'')"
    and "map_of d ''message'' = Some (PDict m)"
    and "map_of m ''content'' = Some (PStr content)"
    and "map_of m ''sender_id'' = Some sid"
    and "\<not> eq_int sid (client_id (client self))"
    and "map_of m ''type'' = Some (PStr ''private'')"
    and "take (length (ping (client self))) content = ping (client self)
         \<or> is_only_pm_recipient (client self) (PDict m) = Inr False"
  shows "zulip_event_preprocess self (PDict d) = Inr ([], PDict d)"
  using assms
  by (auto simp add: zulip_event_preprocess_def ebind_def)

theorem preprocess_private_excluded_witness:
  "zulip_event_preprocess bot0
     (PDict [(''type'', PStr ''message''),
             (''message'', PDict [(''content'', PStr ''@bot help''),
                                  (''sender_id'', PInt 3), (''type'', PStr ''private'')])]) =
   Inr ([], PDict [(''type'', PStr ''message''),
             (''message'', PDict [(''content'', PStr ''@bot help''),
                                  (''sender_id'', PInt 3), (''type'', PStr ''private'')])])"
  using preprocess_private_excluded [of "[(''type'', PStr ''message''),
             (''message'', PDict [(''content'', PStr ''@bot help''),
                                  (''sender_id'', PInt 3), (''type'', PStr ''private'')])]"
           "[(''content'', PStr ''@bot help''),
                                  (''sender_id'', PInt 3), (''type'', PStr ''private'')]"
           "''@bot help''" "PInt 3" bot0]
  by (simp add: bot0_def)


lemma dropWhile_all: "\<forall>c \<in> set s. P c \<Longrightarrow> dropWhile P s = []"
  by (induction s) simp_all

lemma takeWhile_none: "\<forall>c \<in> set s. \<not> P c \<Longrightarrow> takeWhile P s = []"
  by (induction s) simp_all

lemma dropWhile_none: "\<forall>c \<in> set s. \<not> P c \<Longrightarrow> dropWhile P s = s"
  by (induction s) simp_all

lemma first_token_blank: "\<forall>c \<in> set s. isspace c \<Longrightarrow> first_token s = []"
  by (rule first_token_Nil) (rule dropWhile_all)

lemma remainder_blank: "\<forall>c \<in> set s. isspace c \<Longrightarrow> remainder s = []"
  by (rule remainder_Nil) (rule dropWhile_all)

lemma single_token:
  assumes ws1: "\<forall>c \<in> set ws1. isspace c" and ws2: "\<forall>c \<in> set ws2. isspace c"
    and tok: "\<forall>c \<in> set tok. \<not> isspace c" and ne: "tok \<noteq> []"
  shows "first_token (ws1 @ tok @ ws2) = tok" and "remainder (ws1 @ tok @ ws2) = []"
proof -
  obtain t ts where t: "tok = t # ts" using ne by (cases tok) blast+
  have nt: "\<not> isspace t" using tok t by simp
  have a: "dropWhile isspace (ws1 @ tok @ ws2) = tok @ ws2"
  proof -
    have "dropWhile isspace (ws1 @ tok @ ws2) = dropWhile isspace (tok @ ws2)"
      using ws1 by (intro dropWhile_append2) blast
    also have "\<dots> = tok @ ws2" using nt unfolding t by simp
    finally show ?thesis .
  qed
  have b: "takeWhile (\<lambda>c. \<not> isspace c) (tok @ ws2) = tok"
  proof -
    have "takeWhile (\<lambda>c. \<not> isspace c) (tok @ ws2) = tok @ takeWhile (\<lambda>c. \<not> isspace c) ws2"
      using tok by (intro takeWhile_append2) blast
    also have "takeWhile (\<lambda>c. \<not> isspace c) ws2 = []"
      using ws2 by (intro takeWhile_none) blast
    finally show ?thesis by simp
  qed
  have c: "dropWhile (\<lambda>c. \<not> isspace c) (tok @ ws2) = ws2"
  proof -
    have "dropWhile (\<lambda>c. \<not> isspace c) (tok @ ws2) = dropWhile (\<lambda>c. \<not> isspace c) ws2"
      using tok by (intro dropWhile_append2) blast
    also have "\<dots> = ws2" using ws2 by (intro dropWhile_none) blast
    finally show ?thesis .
  qed
  show "first_token (ws1 @ tok @ ws2) = tok"
    unfolding first_token_def a by (rule b)
  show "remainder (ws1 @ tok @ ws2) = []"
    unfolding remainder_eq a c using ws2 by (rule dropWhile_all)
qed


lemma split_blank: "\<forall>c \<in> set s. isspace c \<Longrightarrow> split_maxsplit1 s = []"
  using dropWhile_all [of s isspace] by (simp only: split_cases simp_thms if_True)

lemma split_single:
  assumes "\<forall>c \<in> set ws1. isspace c" "\<forall>c \<in> set ws2. isspace c"
    and "\<forall>c \<in> set tok. \<not> isspace c" "tok \<noteq> []"
  shows "split_maxsplit1 (ws1 @ tok @ ws2) = [tok]"
proof -
  have ft: "first_token (ws1 @ tok @ ws2) = tok" and rm: "remainder (ws1 @ tok @ ws2) = []"
    using assms by (rule single_token)+
  have "dropWhile isspace (ws1 @ tok @ ws2) \<noteq> []"
    using first_token_Nil [of "ws1 @ tok @ ws2"] ft assms(4) by metis
  then show ?thesis by (simp only: split_cases ft rm simp_thms if_True if_False)
qed

lemma preprocess_command_line:
  assumes "wf_client (client self)"
    and "map_of d ''type'' = Some (PStr ''message'')"
    and "map_of d ''message'' = Some (PDict m)"
    and "map_of m ''content'' = Some (PStr content)"
    and "map_of m ''sender_id'' = Some sid"
    and "\<not> eq_int sid (client_id (client self))"
    and "map_of m ''type'' = Some mtype"
    and "qualifies self (PDict m) mtype content"
  shows "zulip_event_preprocess self (PDict d) =
     Inr (emit self (ReceivedCommandLine (split_maxsplit1 (command_line self content))),
          PDict (dict_set ''message''
            (PDict (dict_set ''command'' (PStr (remainder (command_line self content)))
                   (dict_set ''command_name'' (PStr (first_token (command_line self content))) m)))
            d))"
proof (cases "mtype = PStr ''private''")
  case True
  with assms show ?thesis
    by (simp add: zulip_event_preprocess_def ebind_def qualifies_def command_line_def
        split_nth0 split_Nil split_command del: One_nat_def)
next
  case False
  with assms show ?thesis
    by (simp add: zulip_event_preprocess_def ebind_def qualifies_def command_line_def wf_client_def
        split_nth0 split_Nil split_command del: One_nat_def)
qed

text \<open>
  C10.  For an event that qualifies as a command whose command line is empty or all
  whitespace, preprocessing succeeds and attaches \<^verbatim>\<open>command_name = ""\<close> and
  \<^verbatim>\<open>command = ""\<close>; when the command line is a single token (with whitespace
  around it at most), \<^verbatim>\<open>command_name\<close> is that token and \<^verbatim>\<open>command = ""\<close>.
\<close>

theorem preprocess_blank_or_single_token:
  assumes "wf_client (client self)"
    and "map_of d ''type'' = Some (PStr ''message'')"
    and "map_of d ''message'' = Some (PDict m)"
    and "map_of m ''content'' = Some (PStr content)"
    and "map_of m ''sender_id'' = Some sid"
    and "\<not> eq_int sid (client_id (client self))"
    and "map_of m ''type'' = Some mtype"
    and "qualifies self (PDict m) mtype content"
  shows "((\<forall>c \<in> set (command_line self content). isspace c) \<longrightarrow>
           zulip_event_preprocess self (PDict d) =
             Inr (emit self (ReceivedCommandLine []),
                  PDict (dict_set ''message''
                    (PDict (dict_set ''command'' (PStr [])
                           (dict_set ''command_name'' (PStr []) m))) d))) \<and>
         (\<forall>ws1 tok ws2. command_line self content = ws1 @ tok @ ws2
             \<and> (\<forall>c \<in> set ws1. isspace c) \<and> (\<forall>c \<in> set ws2. isspace c)
             \<and> (\<forall>c \<in> set tok. \<not> isspace c) \<and> tok \<noteq> [] \<longrightarrow>
           zulip_event_preprocess self (PDict d) =
             Inr (emit self (ReceivedCommandLine [tok]),
                  PDict (dict_set ''message''
                    (PDict (dict_set ''command'' (PStr [])
                           (dict_set ''command_name'' (PStr tok) m))) d)))"
proof (intro conjI impI allI)
  assume "\<forall>c \<in> set (command_line self content). isspace c"
  then have "split_maxsplit1 (command_line self content) = []"
    "first_token (command_line self content) = []" "remainder (command_line self content) = []"
    by (rule split_blank first_token_blank remainder_blank)+
  then show "zulip_event_preprocess self (PDict d) =
     Inr (emit self (ReceivedCommandLine []),
          PDict (dict_set ''message''
            (PDict (dict_set ''command'' (PStr []) (dict_set ''command_name'' (PStr []) m))) d))"
    using preprocess_command_line [OF assms] by (simp only:)
next
  fix ws1 tok ws2
  assume h: "command_line self content = ws1 @ tok @ ws2
             \<and> (\<forall>c \<in> set ws1. isspace c) \<and> (\<forall>c \<in> set ws2. isspace c)
             \<and> (\<forall>c \<in> set tok. \<not> isspace c) \<and> tok \<noteq> []"
  then have "split_maxsplit1 (ws1 @ tok @ ws2) = [tok]"
    "first_token (ws1 @ tok @ ws2) = tok" "remainder (ws1 @ tok @ ws2) = []"
    using split_single single_token by blast+
  then show "zulip_event_preprocess self (PDict d) =
     Inr (emit self (ReceivedCommandLine [tok]),
          PDict (dict_set ''message''
            (PDict (dict_set ''command'' (PStr []) (dict_set ''command_name'' (PStr tok) m))) d))"
    using preprocess_command_line [OF assms] h by (simp only:)
qed


theorem preprocess_blank_or_single_token_witness:
  "zulip_event_preprocess bot0
     (PDict [(''type'', PStr ''message''),
             (''message'', PDict [(''content'', PStr ''@bot  ''),
                                  (''sender_id'', PInt 3), (''type'', PStr ''stream'')])]) =
   Inr ([], PDict [(''type'', PStr ''message''),
             (''message'', PDict [(''content'', PStr ''@bot  ''),
                                  (''sender_id'', PInt 3), (''type'', PStr ''stream''),
                                  (''command_name'', PStr []),
                                  (''command'', PStr [])])]) \<and>
   zulip_event_preprocess bot0
     (PDict [(''type'', PStr ''message''),
             (''message'', PDict [(''content'', PStr ''help''),
                                  (''sender_id'', PInt 3), (''type'', PStr ''private'')])]) =
   Inr ([], PDict [(''type'', PStr ''message''),
             (''message'', PDict [(''content'', PStr ''help''),
                                  (''sender_id'', PInt 3), (''type'', PStr ''private''),
                                  (''command_name'', PStr ''help''),
                                  (''command'', PStr [])])])"
proof
  show "zulip_event_preprocess bot0
     (PDict [(''type'', PStr ''message''),
             (''message'', PDict [(''content'', PStr ''@bot  ''),
                                  (''sender_id'', PInt 3), (''type'', PStr ''stream'')])]) =
   Inr ([], PDict [(''type'', PStr ''message''),
             (''message'', PDict [(''content'', PStr ''@bot  ''),
                                  (''sender_id'', PInt 3), (''type'', PStr ''stream''),
                                  (''command_name'', PStr []),
                                  (''command'', PStr [])])])"
    using preprocess_blank_or_single_token [of bot0
        "[(''type'', PStr ''message''),
          (''message'', PDict [(''content'', PStr ''@bot  ''),
                               (''sender_id'', PInt 3), (''type'', PStr ''stream'')])]"
        "[(''content'', PStr ''@bot  ''), (''sender_id'', PInt 3), (''type'', PStr ''stream'')]"
        "''@bot  ''" "PInt 3" "PStr ''stream''", THEN conjunct1]
    by (simp add: bot0_def wf_client_def qualifies_def command_line_def emit_def
        logging_level_def isspace_def)
  show "zulip_event_preprocess bot0
     (PDict [(''type'', PStr ''message''),
             (''message'', PDict [(''content'', PStr ''help''),
                                  (''sender_id'', PInt 3), (''type'', PStr ''private'')])]) =
   Inr ([], PDict [(''type'', PStr ''message''),
             (''message'', PDict [(''content'', PStr ''help''),
                                  (''sender_id'', PInt 3), (''type'', PStr ''private''),
                                  (''command_name'', PStr ''help''),
                                  (''command'', PStr [])])])"
    using preprocess_blank_or_single_token [of bot0
        "[(''type'', PStr ''message''),
          (''message'', PDict [(''content'', PStr ''help''),
                               (''sender_id'', PInt 3), (''type'', PStr ''private'')])]"
        "[(''content'', PStr ''help''), (''sender_id'', PInt 3), (''type'', PStr ''private'')]"
        "''help''" "PInt 3" "PStr ''private''", THEN conjunct2, rule_format,
        of "[]" "''help''" "[]"]
    by (simp add: bot0_def wf_client_def qualifies_def command_line_def emit_def
        logging_level_def isspace_def)
qed


section \<open>Properties of the dispatcher loop\<close>

lemma map_of_dict_set: "map_of (dict_set k v d) k' = (if k' = k then Some v else map_of d k')"
  by (induction d) auto

lemma getitem_dict_set_other:
  "k' \<noteq> k \<Longrightarrow> getitem (PDict (dict_set k v d)) k' = getitem (PDict d) k'"
  by (simp add: map_of_dict_set)

lemma setitem_Inr: "setitem ev k v = Inr ev' \<Longrightarrow> \<exists>d. ev = PDict d \<and> ev' = PDict (dict_set k v d)"
  by (cases ev) simp_all

lemma preprocess_result:
  assumes "zulip_event_preprocess self ev = Inr (l, ev')"
  shows "ev' = ev \<or> (\<exists>d v. ev = PDict d \<and> ev' = PDict (dict_set ''message'' v d))"
  using assms
  by (auto simp add: zulip_event_preprocess_def ebind_def split: sum.splits if_splits
      dest!: setitem_Inr)

lemma preprocess_keeps_type:
  assumes "zulip_event_preprocess self ev = Inr (l, ev')"
  shows "getitem ev' ''type'' = getitem ev ''type''"
  using preprocess_result [OF assms] by (auto simp add: map_of_dict_set)

lemma run_iteration_no_heartbeat_task:
  assumes "\<forall>t \<in> set (tasks st). \<not> heartbeat_task t"
  shows "\<forall>t \<in> set (tasks (snd (run_iteration done st event))). \<not> heartbeat_task t"
  using assms
  by (auto simp add: run_iteration_def Let_def heartbeat_task_def preprocess_keeps_type
      split: sum.splits)

lemma run_loop_no_heartbeat_task:
  "\<forall>t \<in> set (tasks st). \<not> heartbeat_task t \<Longrightarrow>
   \<forall>t \<in> set (tasks (snd (run_loop st q))). \<not> heartbeat_task t"
proof (induction q arbitrary: st)
  case Nil
  then show ?case by simp
next
  case (Cons de q)
  obtain out st' where it: "run_iteration (fst de) st (snd de) = (out, st')"
    by (cases "run_iteration (fst de) st (snd de)")
  have inv: "\<forall>t \<in> set (tasks st'). \<not> heartbeat_task t"
    using run_iteration_no_heartbeat_task [OF Cons.prems, of "fst de" "snd de"] it by simp
  show ?case
  proof (cases out)
    case Continue
    then show ?thesis using it Cons.IH [OF inv] by simp
  next
    case Break
    then show ?thesis using it inv by simp
  next
    case (Raised e)
    then show ?thesis using it inv by simp
  qed
qed

text \<open>
  C5.  An iteration that takes a Zulip event whose \<^verbatim>\<open>type\<close> is \<^verbatim>\<open>"heartbeat"\<close>
  schedules nothing: the task list is the old one without the finished tasks, and while
  the bot is not stopped the iteration goes on with nothing but the two debug records of
  the loop head added, so preprocessing was not run.  Hence, from any state whose tasks hold
  no heartbeat event, no state the loop reaches has a task for a heartbeat event.
\<close>

theorem heartbeat_skipped:
  "(etype event = ZULIP \<and> getitem (data event) ''type'' = Inr (PStr ''heartbeat'') \<longrightarrow>
      tasks (snd (run_iteration done st event)) = filter (\<lambda>t. \<not> done t) (tasks st) \<and>
      (\<not> stopped (bot st) \<longrightarrow>
         run_iteration done st event =
           (Continue, st\<lparr>tasks := filter (\<lambda>t. \<not> done t) (tasks st),
                          log := log st @ emit (bot st) WaitingForEvent
                                 @ emit (bot st) (ReceivedEvent event)\<rparr>))) \<and>
   ((\<forall>t \<in> set (tasks st). \<not> heartbeat_task t) \<longrightarrow>
      (\<forall>t \<in> set (tasks (snd (run_loop st q))). \<not> heartbeat_task t))"
proof (intro conjI impI)
  assume h: "etype event = ZULIP \<and> getitem (data event) ''type'' = Inr (PStr ''heartbeat'')"
  then show "tasks (snd (run_iteration done st event)) = filter (\<lambda>t. \<not> done t) (tasks st)"
    by (simp add: run_iteration_def Let_def)
  assume "\<not> stopped (bot st)"
  with h show "run_iteration done st event =
           (Continue, st\<lparr>tasks := filter (\<lambda>t. \<not> done t) (tasks st),
                          log := log st @ emit (bot st) WaitingForEvent
                                 @ emit (bot st) (ReceivedEvent event)\<rparr>)"
    by (simp add: run_iteration_def Let_def)
next
  assume "\<forall>t \<in> set (tasks st). \<not> heartbeat_task t"
  then show "\<forall>t \<in> set (tasks (snd (run_loop st q))). \<not> heartbeat_task t"
    by (rule run_loop_no_heartbeat_task)
qed

theorem heartbeat_skipped_witness:
  "run_iteration none_done st0 heartbeat_event = (Continue, st0) \<and>
   tasks (snd (run_loop st0 [(none_done, heartbeat_event)])) = []"
proof -
  have a: "run_iteration none_done st0 heartbeat_event = (Continue, st0)"
    using heartbeat_skipped [of heartbeat_event none_done st0 "[]", THEN conjunct1]
    by (simp add: heartbeat_event_def st0_def bot0_def emit_def logging_level_def none_done_def)
  then show ?thesis by (simp add: st0_def)
qed

lemma preprocess_wf_returns:
  assumes "wf_event self ev"
  shows "\<exists>l ev'. zulip_event_preprocess self ev = Inr (l, ev') \<and>
           (l = [] \<or> (\<exists>cmd. l = emit self (ReceivedCommandLine cmd)))"
proof (cases ev)
  case (PDict d)
  show ?thesis
  proof (cases "map_of d ''type'' = Some (PStr ''message'')")
    case False
    then show ?thesis using assms PDict
      by (auto simp add: wf_event_def zulip_event_preprocess_def ebind_def split: option.splits)
  next
    case True
    then obtain m where m: "map_of d ''message'' = Some (PDict m)" and wm: "wf_message self m"
      using assms PDict
      by (auto simp add: wf_event_def split: option.splits sum.splits pyval.splits)
    obtain c sid mt where f: "map_of m ''content'' = Some (PStr c)"
        "map_of m ''sender_id'' = Some sid" "map_of m ''type'' = Some mt"
      using wm by (auto simp add: wf_message_def is_str_def split: option.splits pyval.splits)
    have r: "mt = PStr ''private'' \<longrightarrow>
             (\<exists>b. is_only_pm_recipient (client self) (PDict m) = Inr b)"
      using wm f by (auto simp add: wf_message_def returns_def split: sum.splits)
    show ?thesis using PDict True m f r
      by (auto simp add: zulip_event_preprocess_def ebind_def)
  qed
qed (use assms in \<open>simp_all add: wf_event_def\<close>)

lemma emit_debug_only: "\<not> debug self \<Longrightarrow> emit self (ReceivedCommandLine cmd) = []"
  by (simp add: emit_def logging_level_def)

lemma emit_exception: "emit self (LoggedException exc) = [LoggedException exc]"
  by (simp add: emit_def logging_level_def)

text \<open>
  C9, as the code has it.  On a well-formed event preprocessing returns: it raises
  nothing, and what it writes is at most the one debug record of the command line, nothing
  at all unless the bot runs in debugging mode.  In the loop, when the event carries a
  \<^verbatim>\<open>type\<close> field other than \<^verbatim>\<open>"heartbeat"\<close> and preprocessing raises, the exception
  is logged, nothing is scheduled and the loop goes on.
\<close>

theorem preprocess_total_failures_logged:
  "(wf_event self ev \<longrightarrow>
      (\<exists>l ev'. zulip_event_preprocess self ev = Inr (l, ev') \<and>
         (l = [] \<or> (\<exists>cmd. l = [ReceivedCommandLine cmd])) \<and> (\<not> debug self \<longrightarrow> l = []))) \<and>
   (etype event = ZULIP \<and> \<not> stopped (bot st) \<and>
    getitem (data event) ''type'' = Inr ty \<and> ty \<noteq> PStr ''heartbeat'' \<and>
    zulip_event_preprocess (bot st) (data event) = Inl exc \<longrightarrow>
      run_iteration done st event =
        (Continue, st\<lparr>tasks := filter (\<lambda>t. \<not> done t) (tasks st),
                       log := log st @ emit (bot st) WaitingForEvent
                              @ emit (bot st) (ReceivedEvent event)
                              @ [LoggedException exc]\<rparr>))"
proof (intro conjI impI)
  assume "wf_event self ev"
  from preprocess_wf_returns [OF this]
  obtain l ev' where r: "zulip_event_preprocess self ev = Inr (l, ev')"
    and l: "l = [] \<or> (\<exists>cmd. l = emit self (ReceivedCommandLine cmd))" by blast
  have "l = [] \<or> (\<exists>cmd. l = [ReceivedCommandLine cmd])"
    using l by (auto simp add: emit_def)
  moreover have "\<not> debug self \<longrightarrow> l = []" using l emit_debug_only by blast
  ultimately show "\<exists>l ev'. zulip_event_preprocess self ev = Inr (l, ev') \<and>
         (l = [] \<or> (\<exists>cmd. l = [ReceivedCommandLine cmd])) \<and> (\<not> debug self \<longrightarrow> l = [])"
    using r by blast
next
  assume "etype event = ZULIP \<and> \<not> stopped (bot st) \<and>
    getitem (data event) ''type'' = Inr ty \<and> ty \<noteq> PStr ''heartbeat'' \<and>
    zulip_event_preprocess (bot st) (data event) = Inl exc"
  then show "run_iteration done st event =
        (Continue, st\<lparr>tasks := filter (\<lambda>t. \<not> done t) (tasks st),
                       log := log st @ emit (bot st) WaitingForEvent
                              @ emit (bot st) (ReceivedEvent event)
                              @ [LoggedException exc]\<rparr>)"
    by (simp add: run_iteration_def Let_def emit_exception)
qed

theorem preprocess_total_failures_logged_witness:
  "zulip_event_preprocess bot0 mention_data =
     Inr ([], PDict [(''type'', PStr ''message''),
             (''message'', PDict [(''content'', PStr ''@bot create foo''),
                                  (''sender_id'', PInt 3), (''type'', PStr ''stream''),
                                  (''command_name'', PStr ''create''),
                                  (''command'', PStr ''foo'')])]) \<and>
   run_iteration none_done st0 contentless_event =
     (Continue, st0\<lparr>log := [LoggedException (KeyError ''content'')]\<rparr>)"
proof
  have "wf_event bot0 mention_data"
    by (simp add: wf_event_def wf_message_def is_str_def mention_data_def)
  with preprocess_total_failures_logged [of bot0 mention_data, THEN conjunct1]
  obtain l ev' where "zulip_event_preprocess bot0 mention_data = Inr (l, ev')" by blast
  have ev: "zulip_event_preprocess bot0 mention_data =
     Inr ([], PDict [(''type'', PStr ''message''),
             (''message'', PDict [(''content'', PStr ''@bot create foo''),
                                  (''sender_id'', PInt 3), (''type'', PStr ''stream''),
                                  (''command_name'', PStr ''create''),
                                  (''command'', PStr ''foo'')])])"
    by code_simp
  then show "zulip_event_preprocess bot0 mention_data =
     Inr ([], PDict [(''type'', PStr ''message''),
             (''message'', PDict [(''content'', PStr ''@bot create foo''),
                                  (''sender_id'', PInt 3), (''type'', PStr ''stream''),
                                  (''command_name'', PStr ''create''),
                                  (''command'', PStr ''foo'')])])" .
  have p: "zulip_event_preprocess (bot st0) (data contentless_event) = Inl (KeyError ''content'')"
    by code_simp
  show "run_iteration none_done st0 contentless_event =
     (Continue, st0\<lparr>log := [LoggedException (KeyError ''content'')]\<rparr>)"
    using preprocess_total_failures_logged [of bot0 mention_data contentless_event st0
        "PStr ''message''" "KeyError ''content''" none_done, THEN conjunct2] p
    by (simp add: contentless_event_def st0_def bot0_def emit_def logging_level_def none_done_def)
qed

text \<open>
  Against C9 as stated: the event without a \<^verbatim>\<open>type\<close> field is malformed and
  preprocessing raises on it, yet in the loop the test for \<^verbatim>\<open>"heartbeat"\<close> reads the
  field outside the \<^verbatim>\<open>try\<close> block, so the exception ends the loop; and in debugging
  mode preprocessing a command writes a log record.
\<close>

theorem typeless_event_ends_loop:
  "\<not> wf_event bot0 (data typeless_event) \<and>
   zulip_event_preprocess bot0 (data typeless_event) = Inl (KeyError ''type'') \<and>
   run_iteration none_done st0 typeless_event = (Raised (KeyError ''type''), st0) \<and>
   run_loop st0 [(none_done, typeless_event), (none_done, heartbeat_event)]
     = (Raised (KeyError ''type''), st0) \<and>
   wf_event bot_debug mention_data \<and>
   (case zulip_event_preprocess bot_debug mention_data of
      Inl e \<Rightarrow> [] | Inr r \<Rightarrow> fst r) = [ReceivedCommandLine [''create'', ''foo'']]"
proof (intro conjI)
  show "\<not> wf_event bot0 (data typeless_event)"
    by (simp add: wf_event_def typeless_event_def)
  show "zulip_event_preprocess bot0 (data typeless_event) = Inl (KeyError ''type'')"
    by (simp add: zulip_event_preprocess_def ebind_def typeless_event_def)
  show it: "run_iteration none_done st0 typeless_event = (Raised (KeyError ''type''), st0)"
    by (simp add: run_iteration_def Let_def typeless_event_def st0_def bot0_def emit_def
        logging_level_def none_done_def)
  show "run_loop st0 [(none_done, typeless_event), (none_done, heartbeat_event)]
     = (Raised (KeyError ''type''), st0)"
    using it by simp
  show "wf_event bot_debug mention_data"
    by (simp add: wf_event_def wf_message_def is_str_def mention_data_def)
  show "(case zulip_event_preprocess bot_debug mention_data of
      Inl e \<Rightarrow> [] | Inr r \<Rightarrow> fst r) = [ReceivedCommandLine [''create'', ''foo'']]"
    by code_simp
qed


section \<open>Properties of plugin startup\<close>

lemma static_order_duplicate: "static_order (plugin_graph [plugin_a, plugin_a', plugin_b]) = Inr [''b'', ''a'']"
  by code_simp

lemma static_order_cycle: "static_order (plugin_graph [plugin_a', plugin_b', plugin_c]) = Inl CycleError"
  by code_simp

lemma static_order_chain: "static_order (plugin_graph [plugin_c, plugin_b, plugin_a]) = Inr [''a'', ''b'', ''c'']"
  by code_simp

text \<open>A cycle is found before the first plugin is instantiated.\<close>

lemma cycle_fails_before_instantiation:
  "static_order (plugin_graph plugin_classes) = Inl e \<Longrightarrow>
   startPlugins self plugin_classes = ([], [], Inl e)"
  by (simp add: startPlugins_def)

lemma startPlugins_cycle:
  "startPlugins bot0 [plugin_a', plugin_b', plugin_c] = ([], [], Inl CycleError)"
  by (simp add: startPlugins_def static_order_cycle)

text \<open>Plugins without a cycle and with distinct names are started once each, dependencies first.\<close>

lemma startPlugins_chain:
  "startPlugins bot0 [plugin_c, plugin_b, plugin_a] =
     ([], [plugin_a, plugin_b, plugin_c],
      Inr (bot0\<lparr>plugins := [(''a'', plugin_a), (''b'', plugin_b), (''c'', plugin_c)]\<rparr>))"
  unfolding startPlugins_def static_order_chain
  by (simp add: plugin_class_dict_def plugin_a_def plugin_b_def plugin_c_def bot0_def emit_def
      logging_level_def)

text \<open>
  C6.  Two plugin classes with the same name do not make \<^verbatim>\<open>startPlugins\<close> fail: the
  dictionary built from the classes keeps the later class under the shared name, the sorter
  yields the name once, and the test \<^verbatim>\<open>plugin_name in self.plugins\<close> never holds.  The
  later class is instantiated, the earlier one never is, and no \<^verbatim>\<open>ValueError\<close> is raised.
\<close>

theorem duplicate_name_not_detected:
  "startPlugins bot0 [plugin_a, plugin_a', plugin_b] =
     ([], [plugin_b, plugin_a'],
      Inr (bot0\<lparr>plugins := [(''b'', plugin_b), (''a'', plugin_a')]\<rparr>))"
  unfolding startPlugins_def static_order_duplicate
  by (simp add: plugin_class_dict_def plugin_a_def plugin_a'_def plugin_b_def bot0_def emit_def
      logging_level_def)


end
